theory Spec2Isabelle
  imports Complex_Main
begin

section \<open>Data model of the skeleton debug tool\<close>

text \<open>
  JavaScript numbers are modelled as reals: every property below is an equation between the
  expressions the code evaluates, so rounding plays no part in it; NaN and the infinities
  are outside the model. A 4x4 matrix is the flat, column-major array of the source
  (16 entries, read by index), a vector is the object \<open>{x, y, z}\<close>, a colour the
  object \<open>{r, g, b}\<close>.
\<close>

datatype vec3 = Vec3 (vec_x: real) (vec_y: real) (vec_z: real)

datatype rgb = RGB (col_r: real) (col_g: real) (col_b: real)

type_synonym mat4 = "real list"

type_synonym entity_id = string

type_synonym asset_id = string

record SkeletonToolOptions =
  enabled :: bool
  drawJoints :: bool
  drawBones :: bool
  drawAxes :: bool
  jointRadius :: real
  rootScale :: real
  boneColor :: rgb
  rootColor :: rgb
  border :: real

definition DEFAULT_OPTIONS :: SkeletonToolOptions where
  "DEFAULT_OPTIONS =
     \<lparr> enabled = True, drawJoints = True, drawBones = True, drawAxes = False,
       jointRadius = 10, rootScale = 16 / 10,
       boneColor = RGB (1 / 2) (1 / 2) (1 / 2),
       rootColor = RGB (2 / 10) 1 (2 / 10),
       border = 2 / 10 \<rparr>"

text \<open>
  A bone. \<open>parentIndex\<close> is read untyped by the code (\<open>(bone as any).parentIndex\<close>) and
  tested against \<open>-1\<close>, \<open>undefined\<close>, \<open>null\<close> and \<open>typeof p === 'number'\<close>; a number
  is an integer index, as the asset's data model has it. \<open>visual\<close> and its two fields are
  optional; a colour hint is either an object with optional \<open>x, y, z\<close> or an array.
\<close>

datatype parent_ref = PNum int | PUndefined | PNull

datatype color_hint =
    ColorObj "real option" "real option" "real option"
  | ColorArr "real list"

record bone_visual =
  vis_size :: "real option"
  vis_color :: "color_hint option"

record bone =
  parentIndex :: parent_ref
  bindPose :: mat4
  visual :: "bone_visual option"

text \<open>
  The ambient collaborators \<open>engineInstance\<close> and \<open>assetManager\<close>, as the tool reads them.
  The two \<open>Map\<close>s are association lists in insertion order (the order \<open>forEach\<close> visits);
  \<open>getAsset\<close> gives, for an asset that exists, its \<open>skeleton.bones\<close> when that is an
  array; an entry of a live-bone array may be missing. \<open>isActive\<close> and \<open>meshType\<close> are the
  store's arrays read at an index: outside the array the read is \<open>undefined\<close>, which is
  falsy for \<open>isActive\<close> and maps to no asset for \<open>meshType\<close>.
\<close>

record engine =
  debugRenderer :: bool
  skeletonEntityAssetMap :: "(entity_id \<times> asset_id) list"
  skeletonMap :: "(entity_id \<times> entity_id option list) list"
  idToIndex :: "entity_id \<rightharpoonup> nat"
  isActive :: "nat \<Rightarrow> bool"
  meshType :: "nat \<rightharpoonup> int"
  meshIntToUuid :: "int \<rightharpoonup> asset_id"
  getAsset :: "asset_id \<rightharpoonup> bone list option"
  getWorldMatrix :: "entity_id \<rightharpoonup> mat4"

text \<open>The tool object: its only field is \<open>options\<close>.\<close>

record SkeletonTool =
  options :: SkeletonToolOptions

text \<open>
  What the tool emits. \<open>drawSkeleton\<close> makes four kinds of calls: \<open>this.drawAxis\<close>,
  \<open>this.drawWireSphere\<close>, \<open>debug.drawPoint\<close> and \<open>debug.drawLine\<close> (the bone-to-parent
  line); the first two expand to \<open>debug.drawLine\<close> calls. A \<open>prim\<close> is what the debug
  renderer receives.
\<close>

datatype call =
    DrawAxis vec3 vec3 vec3 vec3 real
  | DrawWireSphere vec3 real rgb
  | DrawPoint vec3 rgb real real
  | DrawLine vec3 vec3 rgb

datatype prim =
    Line vec3 vec3 rgb
  | Point vec3 rgb real real

text \<open>The resolved pose of one bone: position and the three axes.\<close>

datatype pose = Pose (pose_pos: vec3) (pose_rx: vec3) (pose_ry: vec3) (pose_rz: vec3)

section \<open>The tool's operations\<close>

definition setActive :: "asset_id option \<Rightarrow> entity_id option \<Rightarrow> SkeletonTool \<Rightarrow> SkeletonTool" where
  "setActive assetId entityId t = t"

definition setActiveAsset :: "asset_id option \<Rightarrow> SkeletonTool \<Rightarrow> SkeletonTool" where
  "setActiveAsset assetId t = t"

definition orElse :: "'a option \<Rightarrow> 'a \<Rightarrow> 'a" where
  "orElse v d = (case v of None \<Rightarrow> d | Some a \<Rightarrow> a)"

subsection \<open>drawAxis and drawWireSphere\<close>

definition drawAxis :: "vec3 \<Rightarrow> vec3 \<Rightarrow> vec3 \<Rightarrow> vec3 \<Rightarrow> real \<Rightarrow> prim list" where
  "drawAxis origin xAxis yAxis zAxis scale =
     [ Line origin
         (Vec3 (vec_x origin + vec_x xAxis * scale) (vec_y origin + vec_y xAxis * scale)
               (vec_z origin + vec_z xAxis * scale))
         (RGB 1 0 0),
       Line origin
         (Vec3 (vec_x origin + vec_x yAxis * scale) (vec_y origin + vec_y yAxis * scale)
               (vec_z origin + vec_z yAxis * scale))
         (RGB 0 1 0),
       Line origin
         (Vec3 (vec_x origin + vec_x zAxis * scale) (vec_y origin + vec_y zAxis * scale)
               (vec_z origin + vec_z zAxis * scale))
         (RGB 0 0 1) ]"

definition segments :: nat where
  "segments = 12"

text \<open>
  One of the three circle loops of \<open>drawWireSphere\<close>:
  \<open>for (i = 1; i <= segments; i++) { theta = ...; next = ...; drawLine(prev, next); prev = next }\<close>,
  with the loop's \<open>next\<close> expression as a function of \<open>theta\<close>.
\<close>

function circleLoop :: "(real \<Rightarrow> vec3) \<Rightarrow> rgb \<Rightarrow> vec3 \<Rightarrow> nat \<Rightarrow> prim list" where
  "circleLoop nxt color prev i =
     (if i \<le> segments
      then (let theta = (real i / real segments) * pi * 2; n = nxt theta
            in Line prev n color # circleLoop nxt color n (Suc i))
      else [])"
  by pat_completeness auto
termination
  by (relation "measure (\<lambda>(nxt, color, prev, i). Suc segments - i)") auto

declare circleLoop.simps [simp del]

definition drawWireSphere :: "vec3 \<Rightarrow> real \<Rightarrow> rgb \<Rightarrow> prim list" where
  "drawWireSphere center radius color =
     circleLoop
       (\<lambda>theta. Vec3 (vec_x center + cos theta * radius) (vec_y center + sin theta * radius)
                      (vec_z center))
       color (Vec3 (vec_x center + radius) (vec_y center) (vec_z center)) 1
     @ circleLoop
       (\<lambda>theta. Vec3 (vec_x center) (vec_y center + cos theta * radius)
                      (vec_z center + sin theta * radius))
       color (Vec3 (vec_x center) (vec_y center + radius) (vec_z center)) 1
     @ circleLoop
       (\<lambda>theta. Vec3 (vec_x center + cos theta * radius) (vec_y center)
                      (vec_z center + sin theta * radius))
       color (Vec3 (vec_x center + radius) (vec_y center) (vec_z center)) 1"

fun render :: "call \<Rightarrow> prim list" where
  "render (DrawAxis origin xAxis yAxis zAxis scale) = drawAxis origin xAxis yAxis zAxis scale"
| "render (DrawWireSphere center radius color) = drawWireSphere center radius color"
| "render (DrawPoint p color r b) = [Point p color r b]"
| "render (DrawLine a b color) = [Line a b color]"

definition emitted :: "call list \<Rightarrow> prim list" where
  "emitted cs = concat (map render cs)"

subsection \<open>drawSkeleton\<close>

text \<open>The two closures over \<open>worldMat\<close>.\<close>

definition transform :: "mat4 \<Rightarrow> real \<Rightarrow> real \<Rightarrow> real \<Rightarrow> vec3" where
  "transform worldMat x y z =
     Vec3 (worldMat ! 0 * x + worldMat ! 4 * y + worldMat ! 8 * z + worldMat ! 12)
          (worldMat ! 1 * x + worldMat ! 5 * y + worldMat ! 9 * z + worldMat ! 13)
          (worldMat ! 2 * x + worldMat ! 6 * y + worldMat ! 10 * z + worldMat ! 14)"

definition rotate :: "mat4 \<Rightarrow> real \<Rightarrow> real \<Rightarrow> real \<Rightarrow> vec3" where
  "rotate worldMat x y z =
     Vec3 (worldMat ! 0 * x + worldMat ! 4 * y + worldMat ! 8 * z)
          (worldMat ! 1 * x + worldMat ! 5 * y + worldMat ! 9 * z)
          (worldMat ! 2 * x + worldMat ! 6 * y + worldMat ! 10 * z)"

text \<open>\<open>p === -1 || p === undefined || p === null\<close>\<close>

definition isRoot :: "parent_ref \<Rightarrow> bool" where
  "isRoot p = (p = PNum (- 1) \<or> p = PUndefined \<or> p = PNull)"

text \<open>
  \<open>liveBoneIds && liveBoneIds[i]\<close>: the identifier when the array exists, has an entry at
  \<open>i\<close> and the entry is truthy (a non-empty string).
\<close>

definition liveBoneAt :: "entity_id option list option \<Rightarrow> nat \<Rightarrow> entity_id option" where
  "liveBoneAt liveBoneIds i =
     (case liveBoneIds of
        None \<Rightarrow> None
      | Some ids \<Rightarrow>
          if i < length ids
          then (case ids ! i of
                  None \<Rightarrow> None
                | Some b \<Rightarrow> if b = [] then None else Some b)
          else None)"

text \<open>\<open>Math.sqrt(a**2 + b**2 + c**2) || 1\<close>\<close>

definition columnLength :: "real \<Rightarrow> real \<Rightarrow> real \<Rightarrow> real" where
  "columnLength a b c = (let l = sqrt (a\<^sup>2 + b\<^sup>2 + c\<^sup>2) in if l = 0 then 1 else l)"

definition livePose :: "mat4 \<Rightarrow> pose" where
  "livePose liveWm =
     (let lx = columnLength (liveWm ! 0) (liveWm ! 1) (liveWm ! 2);
          ly = columnLength (liveWm ! 4) (liveWm ! 5) (liveWm ! 6);
          lz = columnLength (liveWm ! 8) (liveWm ! 9) (liveWm ! 10)
      in Pose (Vec3 (liveWm ! 12) (liveWm ! 13) (liveWm ! 14))
              (Vec3 (liveWm ! 0 / lx) (liveWm ! 1 / lx) (liveWm ! 2 / lx))
              (Vec3 (liveWm ! 4 / ly) (liveWm ! 5 / ly) (liveWm ! 6 / ly))
              (Vec3 (liveWm ! 8 / lz) (liveWm ! 9 / lz) (liveWm ! 10 / lz)))"

definition bindPosePose :: "mat4 \<Rightarrow> bone \<Rightarrow> pose" where
  "bindPosePose worldMat b =
     (let bp = bindPose b
      in Pose (transform worldMat (bp ! 12) (bp ! 13) (bp ! 14))
              (rotate worldMat (bp ! 0) (bp ! 1) (bp ! 2))
              (rotate worldMat (bp ! 4) (bp ! 5) (bp ! 6))
              (rotate worldMat (bp ! 8) (bp ! 9) (bp ! 10)))"

text \<open>
  The first half of the loop body: the live entity's matrix when there is one,
  the bind pose under the instance's world matrix otherwise (\<open>usedLiveEntity\<close> false).
\<close>

definition resolvePose ::
  "engine \<Rightarrow> mat4 \<Rightarrow> entity_id option list option \<Rightarrow> bone \<Rightarrow> nat \<Rightarrow> pose" where
  "resolvePose eng worldMat liveBoneIds b i =
     (case liveBoneAt liveBoneIds i of
        None \<Rightarrow> bindPosePose worldMat b
      | Some liveBoneId \<Rightarrow>
          (case getWorldMatrix eng liveBoneId of
             None \<Rightarrow> bindPosePose worldMat b
           | Some liveWm \<Rightarrow> livePose liveWm))"

text \<open>The end point \<open>pPos\<close> of the bone line, for a parent index \<open>p\<close> inside the array.\<close>

definition parentPos ::
  "engine \<Rightarrow> mat4 \<Rightarrow> entity_id option list option \<Rightarrow> bone list \<Rightarrow> nat \<Rightarrow> vec3" where
  "parentPos eng worldMat liveBoneIds bones p =
     (let fallback =
            (let bp = bindPose (bones ! p)
             in transform worldMat (bp ! 12) (bp ! 13) (bp ! 14))
      in case liveBoneAt liveBoneIds p of
           None \<Rightarrow> fallback
         | Some pLiveId \<Rightarrow>
             (case getWorldMatrix eng pLiveId of
                None \<Rightarrow> fallback
              | Some pWm \<Rightarrow> Vec3 (pWm ! 12) (pWm ! 13) (pWm ! 14)))"

text \<open>\<open>c.x ?? c[0] ?? d\<close> and its two siblings.\<close>

fun hintChannel :: "color_hint \<Rightarrow> nat \<Rightarrow> real \<Rightarrow> real" where
  "hintChannel (ColorObj cx cy cz) k d = orElse ([cx, cy, cz] ! k) d"
| "hintChannel (ColorArr xs) k d = (if k < length xs then xs ! k else d)"

definition jointColor :: "bone \<Rightarrow> rgb" where
  "jointColor b =
     (case visual b of
        None \<Rightarrow> RGB 1 (1 / 2) 0
      | Some v \<Rightarrow>
          (case vis_color v of
             None \<Rightarrow> RGB 1 (1 / 2) 0
           | Some c \<Rightarrow> RGB (hintChannel c 0 1) (hintChannel c 1 (1 / 2)) (hintChannel c 2 0)))"

definition jointSize :: "SkeletonToolOptions \<Rightarrow> bone \<Rightarrow> real" where
  "jointSize opts b =
     jointRadius opts * (case visual b of None \<Rightarrow> 1 | Some v \<Rightarrow> orElse (vis_size v) 1)"

text \<open>The root branch, the joint dot, the per-bone axes and the bone line, in source order.\<close>

definition rootCalls :: "SkeletonToolOptions \<Rightarrow> bool \<Rightarrow> pose \<Rightarrow> call list" where
  "rootCalls opts isStandalone ps =
     (if isStandalone \<or> drawAxes opts
      then [DrawAxis (pose_pos ps) (pose_rx ps) (pose_ry ps) (pose_rz ps)
              (35 / 100 * rootScale opts)]
      else [])
     @ (if drawJoints opts
        then [DrawWireSphere (pose_pos ps) (3 / 10 * rootScale opts) (rootColor opts)]
        else [])"

definition jointCalls :: "SkeletonToolOptions \<Rightarrow> bone \<Rightarrow> pose \<Rightarrow> call list" where
  "jointCalls opts b ps =
     (if drawJoints opts
      then [DrawPoint (pose_pos ps) (jointColor b) (jointSize opts b) (border opts)]
      else [])"

definition axisCalls :: "SkeletonToolOptions \<Rightarrow> bone \<Rightarrow> pose \<Rightarrow> call list" where
  "axisCalls opts b ps =
     (if drawAxes opts \<and> \<not> isRoot (parentIndex b)
      then [DrawAxis (pose_pos ps) (pose_rx ps) (pose_ry ps) (pose_rz ps) (3 / 10)]
      else [])"

definition lineCalls ::
  "SkeletonToolOptions \<Rightarrow> engine \<Rightarrow> mat4 \<Rightarrow> entity_id option list option \<Rightarrow> bone list
     \<Rightarrow> bone \<Rightarrow> pose \<Rightarrow> call list" where
  "lineCalls opts eng worldMat liveBoneIds bones b ps =
     (case parentIndex b of
        PNum p \<Rightarrow>
          if drawBones opts \<and> \<not> isRoot (PNum p) \<and> 0 \<le> p \<and> p < int (length bones)
          then [DrawLine (parentPos eng worldMat liveBoneIds bones (nat p)) (pose_pos ps)
                  (boneColor opts)]
          else []
      | PUndefined \<Rightarrow> []
      | PNull \<Rightarrow> [])"

definition boneCalls ::
  "SkeletonToolOptions \<Rightarrow> bool \<Rightarrow> engine \<Rightarrow> mat4 \<Rightarrow> entity_id option list option
     \<Rightarrow> bone list \<Rightarrow> nat \<Rightarrow> call list" where
  "boneCalls opts isStandalone eng worldMat liveBoneIds bones i =
     (let b = bones ! i;
          ps = resolvePose eng worldMat liveBoneIds b i
      in (if isRoot (parentIndex b) then rootCalls opts isStandalone ps
          else jointCalls opts b ps)
         @ axisCalls opts b ps
         @ lineCalls opts eng worldMat liveBoneIds bones b ps)"

text \<open>\<open>for (let i = 0; i < bones.length; i++) { ... }\<close>\<close>

function boneLoop ::
  "SkeletonToolOptions \<Rightarrow> bool \<Rightarrow> engine \<Rightarrow> mat4 \<Rightarrow> entity_id option list option
     \<Rightarrow> bone list \<Rightarrow> nat \<Rightarrow> call list" where
  "boneLoop opts isStandalone eng worldMat liveBoneIds bones i =
     (if i < length bones
      then boneCalls opts isStandalone eng worldMat liveBoneIds bones i
           @ boneLoop opts isStandalone eng worldMat liveBoneIds bones (Suc i)
      else [])"
  by pat_completeness auto
termination
  by (relation "measure (\<lambda>(opts, isStandalone, eng, worldMat, liveBoneIds, bones, i).
                  length bones - i)") auto

declare boneLoop.simps [simp del]

definition originAxis :: "mat4 \<Rightarrow> call" where
  "originAxis worldMat =
     DrawAxis (Vec3 (worldMat ! 12) (worldMat ! 13) (worldMat ! 14))
              (Vec3 (worldMat ! 0) (worldMat ! 1) (worldMat ! 2))
              (Vec3 (worldMat ! 4) (worldMat ! 5) (worldMat ! 6))
              (Vec3 (worldMat ! 8) (worldMat ! 9) (worldMat ! 10))
              (6 / 10)"

definition drawSkeleton ::
  "SkeletonToolOptions \<Rightarrow> engine \<Rightarrow> asset_id \<Rightarrow> entity_id \<Rightarrow> bool \<Rightarrow> call list" where
  "drawSkeleton opts eng assetId entityId isStandalone =
     (case getAsset eng assetId of
        None \<Rightarrow> []
      | Some skeleton \<Rightarrow>
          (case skeleton of
             None \<Rightarrow> []
           | Some bones \<Rightarrow>
               (case getWorldMatrix eng entityId of
                  None \<Rightarrow> []
                | Some worldMat \<Rightarrow>
                    (if isStandalone then [originAxis worldMat] else [])
                    @ boneLoop opts isStandalone eng worldMat
                        (map_of (skeletonMap eng) entityId) bones 0)))"

subsection \<open>update\<close>

text \<open>
  The \<open>drawSkeleton\<close> invocations of one \<open>update\<close>, as (assetId, entityId, isStandalone):
  the first \<open>forEach\<close> makes one for every entry of the standalone map, the second one for
  every key of \<open>skeletonMap\<close> that passes the four tests.
\<close>

type_synonym invocation = "asset_id \<times> entity_id \<times> bool"

definition standalonePass :: "engine \<Rightarrow> invocation list" where
  "standalonePass eng =
     map (\<lambda>(entityId, assetId). (assetId, entityId, True)) (skeletonEntityAssetMap eng)"

definition meshInvocation :: "engine \<Rightarrow> entity_id \<Rightarrow> invocation list" where
  "meshInvocation eng entityId =
     (if entityId \<in> fst ` set (skeletonEntityAssetMap eng) then []
      else case idToIndex eng entityId of
             None \<Rightarrow> []
           | Some idx \<Rightarrow>
               if isActive eng idx
               then (case meshType eng idx of
                       None \<Rightarrow> []
                     | Some meshIntId \<Rightarrow>
                         (case meshIntToUuid eng meshIntId of
                            None \<Rightarrow> []
                          | Some assetId \<Rightarrow>
                              if assetId = [] then [] else [(assetId, entityId, False)]))
               else [])"

definition skeletalMeshPass :: "engine \<Rightarrow> invocation list" where
  "skeletalMeshPass eng = concat (map (\<lambda>(entityId, _). meshInvocation eng entityId) (skeletonMap eng))"

definition invocations :: "SkeletonToolOptions \<Rightarrow> engine \<Rightarrow> invocation list" where
  "invocations opts eng =
     (if \<not> enabled opts then []
      else if \<not> debugRenderer eng then []
      else standalonePass eng @ skeletalMeshPass eng)"

definition updateCalls :: "SkeletonToolOptions \<Rightarrow> engine \<Rightarrow> call list" where
  "updateCalls opts eng =
     concat (map (\<lambda>(assetId, entityId, isStandalone).
                    drawSkeleton opts eng assetId entityId isStandalone)
                 (invocations opts eng))"

text \<open>\<open>update\<close> reads \<open>this.options\<close> and the collaborators and assigns nothing.\<close>

definition update :: "SkeletonTool \<Rightarrow> engine \<Rightarrow> SkeletonTool \<times> call list" where
  "update t eng = (t, updateCalls (options t) eng)"

section \<open>The same code as transformers of the program state\<close>

text \<open>
  The state the tool's code can reach. \<open>this.options\<close> is a reference to an options object
  on the heap; the object's \<open>boneColor\<close> and \<open>rootColor\<close> are references to colour objects
  (the spread in the field initialiser and in \<open>setOptions\<close> copies references, so colour
  objects can be shared with \<open>DEFAULT_OPTIONS\<close>, with other tools and with callers, and
  \<open>getOptions\<close> hands out the options object itself). The collaborators are part of the
  state, and \<open>drawn\<close> is what the debug renderer has received so far.
\<close>

type_synonym addr = nat

record options_obj =
  o_enabled :: bool
  o_drawJoints :: bool
  o_drawBones :: bool
  o_drawAxes :: bool
  o_jointRadius :: real
  o_rootScale :: real
  o_boneColor :: addr
  o_rootColor :: addr
  o_border :: real

record world =
  this_options :: addr
  optionObjs :: "addr \<Rightarrow> options_obj"
  colorObjs :: "addr \<Rightarrow> rgb"
  engineInstance :: engine
  drawn :: "prim list"

text \<open>The value of \<open>this.options\<close> at a state: what the reads \<open>this.options.x\<close> give.\<close>

definition readOptions :: "world \<Rightarrow> SkeletonToolOptions" where
  "readOptions w =
     (let obj = optionObjs w (this_options w) in
      \<lparr> enabled = o_enabled obj, drawJoints = o_drawJoints obj, drawBones = o_drawBones obj,
        drawAxes = o_drawAxes obj, jointRadius = o_jointRadius obj,
        rootScale = o_rootScale obj,
        boneColor = colorObjs w (o_boneColor obj),
        rootColor = colorObjs w (o_rootColor obj),
        border = o_border obj \<rparr>)"

text \<open>The renderer's two operations append to its buffer.\<close>

definition debug_drawLine :: "vec3 \<Rightarrow> vec3 \<Rightarrow> rgb \<Rightarrow> world \<Rightarrow> world" where
  "debug_drawLine a b color w = w\<lparr> drawn := drawn w @ [Line a b color] \<rparr>"

definition debug_drawPoint :: "vec3 \<Rightarrow> rgb \<Rightarrow> real \<Rightarrow> real \<Rightarrow> world \<Rightarrow> world" where
  "debug_drawPoint p color r b w = w\<lparr> drawn := drawn w @ [Point p color r b] \<rparr>"

text \<open>
  \<open>drawAxis\<close>, \<open>drawWireSphere\<close>, the body of the bone loop, the loop, \<open>drawSkeleton\<close> and
  \<open>update\<close>, statement by statement: each draw call takes the state the previous one left,
  and each \<open>this.options.x\<close> and each query of a collaborator reads the state current at
  that point.
\<close>

definition drawAxis_st :: "vec3 \<Rightarrow> vec3 \<Rightarrow> vec3 \<Rightarrow> vec3 \<Rightarrow> real \<Rightarrow> world \<Rightarrow> world" where
  "drawAxis_st origin xAxis yAxis zAxis scale w =
     (let w1 = debug_drawLine origin
                 (Vec3 (vec_x origin + vec_x xAxis * scale) (vec_y origin + vec_y xAxis * scale)
                       (vec_z origin + vec_z xAxis * scale))
                 (RGB 1 0 0) w;
          w2 = debug_drawLine origin
                 (Vec3 (vec_x origin + vec_x yAxis * scale) (vec_y origin + vec_y yAxis * scale)
                       (vec_z origin + vec_z yAxis * scale))
                 (RGB 0 1 0) w1
      in debug_drawLine origin
           (Vec3 (vec_x origin + vec_x zAxis * scale) (vec_y origin + vec_y zAxis * scale)
                 (vec_z origin + vec_z zAxis * scale))
           (RGB 0 0 1) w2)"

function circleLoop_st :: "(real \<Rightarrow> vec3) \<Rightarrow> rgb \<Rightarrow> vec3 \<Rightarrow> nat \<Rightarrow> world \<Rightarrow> world" where
  "circleLoop_st nxt color prev i w =
     (if i \<le> segments
      then (let theta = (real i / real segments) * pi * 2; n = nxt theta
            in circleLoop_st nxt color n (Suc i) (debug_drawLine prev n color w))
      else w)"
  by pat_completeness auto
termination
  by (relation "measure (\<lambda>(nxt, color, prev, i, w). Suc segments - i)") auto

declare circleLoop_st.simps [simp del]

definition drawWireSphere_st :: "vec3 \<Rightarrow> real \<Rightarrow> rgb \<Rightarrow> world \<Rightarrow> world" where
  "drawWireSphere_st center radius color w =
     (let w1 = circleLoop_st
                 (\<lambda>theta. Vec3 (vec_x center + cos theta * radius)
                                (vec_y center + sin theta * radius) (vec_z center))
                 color (Vec3 (vec_x center + radius) (vec_y center) (vec_z center)) 1 w;
          w2 = circleLoop_st
                 (\<lambda>theta. Vec3 (vec_x center) (vec_y center + cos theta * radius)
                                (vec_z center + sin theta * radius))
                 color (Vec3 (vec_x center) (vec_y center + radius) (vec_z center)) 1 w1
      in circleLoop_st
           (\<lambda>theta. Vec3 (vec_x center + cos theta * radius) (vec_y center)
                          (vec_z center + sin theta * radius))
           color (Vec3 (vec_x center + radius) (vec_y center) (vec_z center)) 1 w2)"

definition boneBody_st ::
  "bool \<Rightarrow> mat4 \<Rightarrow> entity_id option list option \<Rightarrow> bone list \<Rightarrow> nat \<Rightarrow> world \<Rightarrow> world" where
  "boneBody_st isStandalone worldMat liveBoneIds bones i w =
     (let b = bones ! i;
          ps = resolvePose (engineInstance w) worldMat liveBoneIds b i;
          w1 = (if isRoot (parentIndex b)
                then (let wa = (if isStandalone \<or> drawAxes (readOptions w)
                                then drawAxis_st (pose_pos ps) (pose_rx ps) (pose_ry ps)
                                       (pose_rz ps) (35 / 100 * rootScale (readOptions w)) w
                                else w)
                      in if drawJoints (readOptions wa)
                         then drawWireSphere_st (pose_pos ps) (3 / 10 * rootScale (readOptions wa))
                                (rootColor (readOptions wa)) wa
                         else wa)
                else (if drawJoints (readOptions w)
                      then debug_drawPoint (pose_pos ps) (jointColor b)
                             (jointSize (readOptions w) b) (border (readOptions w)) w
                      else w));
          w2 = (if drawAxes (readOptions w1) \<and> \<not> isRoot (parentIndex b)
                then drawAxis_st (pose_pos ps) (pose_rx ps) (pose_ry ps) (pose_rz ps) (3 / 10) w1
                else w1)
      in case parentIndex b of
           PNum p \<Rightarrow>
             if drawBones (readOptions w2) \<and> \<not> isRoot (PNum p) \<and> 0 \<le> p
                \<and> p < int (length bones)
             then debug_drawLine
                    (parentPos (engineInstance w2) worldMat liveBoneIds bones (nat p))
                    (pose_pos ps) (boneColor (readOptions w2)) w2
             else w2
         | PUndefined \<Rightarrow> w2
         | PNull \<Rightarrow> w2)"

function boneLoop_st ::
  "bool \<Rightarrow> mat4 \<Rightarrow> entity_id option list option \<Rightarrow> bone list \<Rightarrow> nat \<Rightarrow> world \<Rightarrow> world" where
  "boneLoop_st isStandalone worldMat liveBoneIds bones i w =
     (if i < length bones
      then boneLoop_st isStandalone worldMat liveBoneIds bones (Suc i)
             (boneBody_st isStandalone worldMat liveBoneIds bones i w)
      else w)"
  by pat_completeness auto
termination
  by (relation "measure (\<lambda>(isStandalone, worldMat, liveBoneIds, bones, i, w).
                  length bones - i)") auto

declare boneLoop_st.simps [simp del]

definition drawSkeleton_st :: "asset_id \<Rightarrow> entity_id \<Rightarrow> bool \<Rightarrow> world \<Rightarrow> world" where
  "drawSkeleton_st assetId entityId isStandalone w =
     (case getAsset (engineInstance w) assetId of
        None \<Rightarrow> w
      | Some skeleton \<Rightarrow>
          (case skeleton of
             None \<Rightarrow> w
           | Some bones \<Rightarrow>
               (case getWorldMatrix (engineInstance w) entityId of
                  None \<Rightarrow> w
                | Some worldMat \<Rightarrow>
                    (let w1 = (if isStandalone
                               then drawAxis_st
                                      (Vec3 (worldMat ! 12) (worldMat ! 13) (worldMat ! 14))
                                      (Vec3 (worldMat ! 0) (worldMat ! 1) (worldMat ! 2))
                                      (Vec3 (worldMat ! 4) (worldMat ! 5) (worldMat ! 6))
                                      (Vec3 (worldMat ! 8) (worldMat ! 9) (worldMat ! 10))
                                      (6 / 10) w
                               else w)
                     in boneLoop_st isStandalone worldMat
                          (map_of (skeletonMap (engineInstance w1)) entityId) bones 0 w1))))"

text \<open>\<open>Map.prototype.forEach\<close>: the callback runs on each entry in insertion order.\<close>

fun forEach :: "('k \<Rightarrow> 'v \<Rightarrow> world \<Rightarrow> world) \<Rightarrow> ('k \<times> 'v) list \<Rightarrow> world \<Rightarrow> world" where
  "forEach f [] w = w"
| "forEach f ((k, v) # rest) w = forEach f rest (f k v w)"

definition meshStep_st :: "entity_id \<Rightarrow> world \<Rightarrow> world" where
  "meshStep_st entityId w =
     (if entityId \<in> fst ` set (skeletonEntityAssetMap (engineInstance w)) then w
      else case idToIndex (engineInstance w) entityId of
             None \<Rightarrow> w
           | Some idx \<Rightarrow>
               if isActive (engineInstance w) idx
               then (case meshType (engineInstance w) idx of
                       None \<Rightarrow> w
                     | Some meshIntId \<Rightarrow>
                         (case meshIntToUuid (engineInstance w) meshIntId of
                            None \<Rightarrow> w
                          | Some assetId \<Rightarrow>
                              if assetId = [] then w
                              else drawSkeleton_st assetId entityId False w))
               else w)"

definition update_st :: "world \<Rightarrow> world" where
  "update_st w =
     (if \<not> enabled (readOptions w) then w
      else if \<not> debugRenderer (engineInstance w) then w
      else (let w1 = forEach (\<lambda>entityId assetId. drawSkeleton_st assetId entityId True)
                       (skeletonEntityAssetMap (engineInstance w)) w
            in forEach (\<lambda>entityId liveBoneIds. meshStep_st entityId)
                 (skeletonMap (engineInstance w1)) w1))"

text \<open>The primitives one \<open>update\<close> call hands to the renderer.\<close>

definition updateOutput :: "world \<Rightarrow> prim list" where
  "updateOutput w = drop (length (drawn w)) (drawn (update_st w))"

text \<open>The state with more primitives received and nothing else changed.\<close>

definition appendDrawn :: "prim list \<Rightarrow> world \<Rightarrow> world" where
  "appendDrawn ps w = w\<lparr> drawn := drawn w @ ps \<rparr>"


section \<open>Vocabulary of the properties\<close>

text \<open>Kinds of calls: the bone-to-parent line, and the joint markers (dot or wire sphere).\<close>

fun isBoneLine :: "call \<Rightarrow> bool" where
  "isBoneLine (DrawLine a b color) = True"
| "isBoneLine (DrawAxis origin xAxis yAxis zAxis scale) = False"
| "isBoneLine (DrawWireSphere center radius color) = False"
| "isBoneLine (DrawPoint p color r b) = False"

fun isJointMarker :: "call \<Rightarrow> bool" where
  "isJointMarker (DrawPoint p color r b) = True"
| "isJointMarker (DrawWireSphere center radius color) = True"
| "isJointMarker (DrawAxis origin xAxis yAxis zAxis scale) = False"
| "isJointMarker (DrawLine a b color) = False"

fun isWireSphere :: "call \<Rightarrow> bool" where
  "isWireSphere (DrawWireSphere center radius color) = True"
| "isWireSphere (DrawPoint p color r b) = False"
| "isWireSphere (DrawAxis origin xAxis yAxis zAxis scale) = False"
| "isWireSphere (DrawLine a b color) = False"

fun isPoint :: "prim \<Rightarrow> bool" where
  "isPoint (Point p color r b) = True"
| "isPoint (Line a b color) = False"

text \<open>
  The root test in the words of the data model: the parent index is absent or negative.
\<close>

fun absentOrNegative :: "parent_ref \<Rightarrow> bool" where
  "absentOrNegative (PNum p) = (p < 0)"
| "absentOrNegative PUndefined = True"
| "absentOrNegative PNull = True"

text \<open>Matrices used to state and to exercise the properties.\<close>

definition translationMat :: "real \<Rightarrow> real \<Rightarrow> real \<Rightarrow> mat4" where
  "translationMat x y z = [1, 0, 0, 0,  0, 1, 0, 0,  0, 0, 1, 0,  x, y, z, 1]"

definition identityMat :: mat4 where
  "identityMat = translationMat 0 0 0"

definition scaleMat :: "real \<Rightarrow> mat4" where
  "scaleMat s = [s, 0, 0, 0,  0, s, 0, 0,  0, 0, s, 0,  0, 0, 0, 1]"

definition zeroColumnMat :: mat4 where
  "zeroColumnMat = [0, 0, 0, 0,  0, 2, 0, 0,  0, 0, 1, 0,  5, 6, 7, 1]"

text \<open>
  A small scene: one skeleton asset of four bones (a root, its child, a bone whose parent
  index is past the end, a bone whose parent index is \<open>-2\<close>), a standalone instance
  \<open>rig\<close> that is also a key of the skeletal-mesh map and has a live entity for bone 0 only,
  a skeletal mesh \<open>mesh\<close>, and an entity \<open>ghost\<close> with live bones but no world matrix.
\<close>

definition demoBones :: "bone list" where
  "demoBones =
     [ \<lparr> parentIndex = PNum (- 1), bindPose = translationMat 0 0 0, visual = None \<rparr>,
       \<lparr> parentIndex = PNum 0, bindPose = translationMat 0 1 0, visual = None \<rparr>,
       \<lparr> parentIndex = PNum 9, bindPose = translationMat 0 2 0, visual = None \<rparr>,
       \<lparr> parentIndex = PNum (- 2), bindPose = translationMat 0 3 0, visual = None \<rparr> ]"

definition demoEngine :: engine where
  "demoEngine =
     \<lparr> debugRenderer = True,
       skeletonEntityAssetMap = [(''rig'', ''skel'')],
       skeletonMap = [(''rig'', [Some ''b0'', None]), (''mesh'', []), (''ghost'', [Some ''b0''])],
       idToIndex = [''rig'' \<mapsto> 0, ''mesh'' \<mapsto> 1, ''ghost'' \<mapsto> 2],
       isActive = (\<lambda>idx. True),
       meshType = [0 \<mapsto> 4, 1 \<mapsto> 4, 2 \<mapsto> 4],
       meshIntToUuid = [4 \<mapsto> ''skel''],
       getAsset = [''skel'' \<mapsto> Some demoBones],
       getWorldMatrix =
         [''rig'' \<mapsto> translationMat 1 2 3, ''mesh'' \<mapsto> scaleMat 2,
          ''b0'' \<mapsto> zeroColumnMat] \<rparr>"

text \<open>Tools with the default options but one.\<close>

definition noBonesTool :: SkeletonTool where
  "noBonesTool = \<lparr> options = DEFAULT_OPTIONS \<lparr> drawBones := False \<rparr> \<rparr>"

definition noJointsTool :: SkeletonTool where
  "noJointsTool = \<lparr> options = DEFAULT_OPTIONS \<lparr> drawJoints := False \<rparr> \<rparr>"

definition disabledTool :: SkeletonTool where
  "disabledTool = \<lparr> options = DEFAULT_OPTIONS \<lparr> enabled := False \<rparr> \<rparr>"

definition axesOffTool :: SkeletonTool where
  "axesOffTool = \<lparr> options = DEFAULT_OPTIONS \<lparr> drawAxes := False \<rparr> \<rparr>"

text \<open>
  Two program states over the demo scene whose options have the same value: they differ in
  the address of the options object, in the colour objects it references, in the other
  objects of the heap and in what the renderer has already received.
\<close>

definition defaultObj :: options_obj where
  "defaultObj =
     \<lparr> o_enabled = True, o_drawJoints = True, o_drawBones = True, o_drawAxes = False,
       o_jointRadius = 10, o_rootScale = 16 / 10, o_boneColor = 1, o_rootColor = 2,
       o_border = 2 / 10 \<rparr>"

definition demoWorld :: world where
  "demoWorld =
     \<lparr> this_options = 3,
       optionObjs = (\<lambda>a. defaultObj),
       colorObjs = (\<lambda>a. if a = 1 then RGB (1 / 2) (1 / 2) (1 / 2) else RGB (2 / 10) 1 (2 / 10)),
       engineInstance = demoEngine,
       drawn = [] \<rparr>"

definition otherWorld :: world where
  "otherWorld =
     \<lparr> this_options = 7,
       optionObjs = (\<lambda>a. if a = 7 then defaultObj \<lparr> o_boneColor := 8, o_rootColor := 9 \<rparr>
                         else defaultObj \<lparr> o_enabled := False \<rparr>),
       colorObjs = (\<lambda>a. if a = 8 then RGB (1 / 2) (1 / 2) (1 / 2)
                         else if a = 9 then RGB (2 / 10) 1 (2 / 10) else RGB 0 0 0),
       engineInstance = demoEngine,
       drawn = [Point (Vec3 0 0 0) (RGB 0 0 0) 1 0] \<rparr>"

section \<open>Auxiliary facts\<close>

text \<open>The bone loop visits the indices \<open>i, i + 1, ..., length bones - 1\<close> once each, in order.\<close>

lemma boneLoop_unfold:
  "boneLoop opts sa eng w live bones i =
     concat (map (boneCalls opts sa eng w live bones) [i..<length bones])"
proof (induction opts sa eng w live bones i rule: boneLoop.induct)
  case (1 opts sa eng w live bones i)
  show ?case
  proof (cases "i < length bones")
    case True
    then show ?thesis
      using "1.IH" by (subst boneLoop.simps) (simp add: upt_conv_Cons)
  next
    case False
    then show ?thesis by (subst boneLoop.simps) simp
  qed
qed

lemma filter_concat_empty:
  assumes "\<And>x. x \<in> set xs \<Longrightarrow> filter P (f x) = []"
  shows "filter P (concat (map f xs)) = []"
  using assms by (induction xs) simp_all

lemma boneCalls_no_line:
  "\<not> drawBones opts \<Longrightarrow> filter isBoneLine (boneCalls opts sa eng w live bones i) = []"
  by (simp add: boneCalls_def rootCalls_def jointCalls_def axisCalls_def lineCalls_def Let_def
           split: parent_ref.splits)

lemma boneCalls_no_marker:
  "\<not> drawJoints opts \<Longrightarrow> filter isJointMarker (boneCalls opts sa eng w live bones i) = []"
  by (simp add: boneCalls_def rootCalls_def jointCalls_def axisCalls_def lineCalls_def Let_def
           split: parent_ref.splits)

lemma drawSkeleton_no_line:
  "\<not> drawBones opts \<Longrightarrow> filter isBoneLine (drawSkeleton opts eng a e sa) = []"
  by (simp add: drawSkeleton_def originAxis_def boneLoop_unfold filter_concat_empty
        boneCalls_no_line split: option.splits)

lemma drawSkeleton_no_marker:
  "\<not> drawJoints opts \<Longrightarrow> filter isJointMarker (drawSkeleton opts eng a e sa) = []"
  by (simp add: drawSkeleton_def originAxis_def boneLoop_unfold filter_concat_empty
        boneCalls_no_marker split: option.splits)

lemma render_marker_points:
  "\<not> isJointMarker c \<Longrightarrow> filter isPoint (render c) = []"
  by (cases c) (simp_all add: drawAxis_def)

lemma emitted_no_points:
  assumes "filter isJointMarker cs = []"
  shows "filter isPoint (emitted cs) = []"
proof -
  have "\<And>c. c \<in> set cs \<Longrightarrow> \<not> isJointMarker c"
    using assms by (simp add: filter_empty_conv)
  then have "\<And>c. c \<in> set cs \<Longrightarrow> filter isPoint (render c) = []"
    by (simp add: render_marker_points)
  then show ?thesis
    unfolding emitted_def by (rule filter_concat_empty)
qed

lemma resolvePose_fallback:
  assumes "liveBoneAt liveBoneIds i = None
           \<or> (\<exists>liveBoneId. liveBoneAt liveBoneIds i = Some liveBoneId
                \<and> getWorldMatrix eng liveBoneId = None)"
  shows "resolvePose eng worldMat liveBoneIds b i = bindPosePose worldMat b"
  using assms by (auto simp: resolvePose_def)

lemma sq3_zero: "(a::real)\<^sup>2 + b\<^sup>2 + c\<^sup>2 = 0 \<longleftrightarrow> a = 0 \<and> b = 0 \<and> c = 0"
proof -
  have "0 \<le> a\<^sup>2 + b\<^sup>2" and "0 \<le> c\<^sup>2" by simp_all
  then have "a\<^sup>2 + b\<^sup>2 + c\<^sup>2 = 0 \<longleftrightarrow> a\<^sup>2 + b\<^sup>2 = 0 \<and> c\<^sup>2 = 0"
    by (rule add_nonneg_eq_0_iff)
  then show ?thesis by (simp add: sum_power2_eq_zero_iff)
qed

lemma boneCalls_length: "length (boneCalls opts sa eng w live bones i) \<le> 3"
  by (simp add: boneCalls_def rootCalls_def jointCalls_def axisCalls_def lineCalls_def Let_def
        split: parent_ref.splits)

lemma length_concat_bound:
  assumes "\<And>x. x \<in> set xs \<Longrightarrow> length (f x) \<le> k"
  shows "length (concat (map f xs)) \<le> k * length xs"
  using assms
proof (induction xs)
  case Nil
  then show ?case by simp
next
  case (Cons x xs)
  have "length (f x) \<le> k" using Cons.prems by simp
  moreover have "length (concat (map f xs)) \<le> k * length xs"
    using Cons by simp
  ultimately show ?case by simp
qed

lemma drawSkeleton_unfold:
  assumes "getAsset eng assetId = Some (Some bones)"
    and "getWorldMatrix eng entityId = Some w"
  shows "drawSkeleton opts eng assetId entityId sa
           = (if sa then [originAxis w] else [])
             @ concat (map (boneCalls opts sa eng w (map_of (skeletonMap eng) entityId) bones)
                           [0..<length bones])"
  using assms by (simp add: drawSkeleton_def boneLoop_unfold)

text \<open>What the standalone instance of the demo scene emits under the default options.\<close>

lemma demo_rig_calls:
  "drawSkeleton DEFAULT_OPTIONS demoEngine ''skel'' ''rig'' True =
     [DrawAxis (Vec3 1 2 3) (Vec3 1 0 0) (Vec3 0 1 0) (Vec3 0 0 1) (3 / 5),
      DrawAxis (Vec3 5 6 7) (Vec3 0 0 0) (Vec3 0 1 0) (Vec3 0 0 1) (14 / 25),
      DrawWireSphere (Vec3 5 6 7) (12 / 25) (RGB (1 / 5) 1 (1 / 5)),
      DrawPoint (Vec3 1 3 3) (RGB 1 (1 / 2) 0) 10 (1 / 5),
      DrawLine (Vec3 5 6 7) (Vec3 1 3 3) (RGB (1 / 2) (1 / 2) (1 / 2)),
      DrawPoint (Vec3 1 4 3) (RGB 1 (1 / 2) 0) 10 (1 / 5),
      DrawPoint (Vec3 1 5 3) (RGB 1 (1 / 2) 0) 10 (1 / 5)]"
  apply (simp add: drawSkeleton_def demoEngine_def boneLoop_unfold demoBones_def upt_conv_Cons)
  apply (simp add: boneCalls_def isRoot_def rootCalls_def jointCalls_def axisCalls_def lineCalls_def resolvePose_def liveBoneAt_def livePose_def bindPosePose_def transform_def rotate_def translationMat_def zeroColumnMat_def columnLength_def parentPos_def originAxis_def jointColor_def jointSize_def Let_def DEFAULT_OPTIONS_def)
  done









lemma demo_invocations:
  "invocations DEFAULT_OPTIONS demoEngine
     = [(''skel'', ''rig'', True), (''skel'', ''mesh'', False), (''skel'', ''ghost'', False)]"
  by (simp add: invocations_def standalonePass_def skeletalMeshPass_def meshInvocation_def
        demoEngine_def DEFAULT_OPTIONS_def)

lemma emitted_append: "emitted (xs @ ys) = emitted xs @ emitted ys"
  by (simp add: emitted_def)

lemma emitted_Cons: "emitted (c # cs) = render c @ emitted cs"
  by (simp add: emitted_def)

lemma updateCalls_split:
  assumes "enabled opts" and "debugRenderer eng"
    and "skeletonEntityAssetMap eng = xs @ (entityId, assetId) # ys"
  shows "\<exists>before after. updateCalls opts eng
           = before @ drawSkeleton opts eng assetId entityId True @ after"
proof -
  have "invocations opts eng
          = map (\<lambda>(e, a). (a, e, True)) xs
            @ (assetId, entityId, True)
            # (map (\<lambda>(e, a). (a, e, True)) ys @ skeletalMeshPass eng)"
    using assms by (simp add: invocations_def standalonePass_def)
  then have "updateCalls opts eng
          = concat (map (\<lambda>(a, e, s). drawSkeleton opts eng a e s)
                        (map (\<lambda>(e, a). (a, e, True)) xs))
            @ drawSkeleton opts eng assetId entityId True
            @ concat (map (\<lambda>(a, e, s). drawSkeleton opts eng a e s)
                          (map (\<lambda>(e, a). (a, e, True)) ys @ skeletalMeshPass eng))"
    by (simp add: updateCalls_def)
  then show ?thesis by blast
qed

text \<open>
  Every transformer leaves the state as it was but for the renderer's buffer, to which it
  appends the primitives of the calls computed from the options and collaborators of the
  state it started in.
\<close>

lemma appendDrawn_Nil [simp]: "appendDrawn [] w = w"
  by (simp add: appendDrawn_def)

lemma appendDrawn_appendDrawn [simp]:
  "appendDrawn b (appendDrawn a w) = appendDrawn (a @ b) w"
  by (simp add: appendDrawn_def)

lemma readOptions_appendDrawn [simp]: "readOptions (appendDrawn a w) = readOptions w"
  by (simp add: appendDrawn_def readOptions_def)

lemma engineInstance_appendDrawn [simp]: "engineInstance (appendDrawn a w) = engineInstance w"
  by (simp add: appendDrawn_def)

lemma drawn_appendDrawn [simp]: "drawn (appendDrawn a w) = drawn w @ a"
  by (simp add: appendDrawn_def)

lemma debug_drawLine_frame: "debug_drawLine a b color w = appendDrawn [Line a b color] w"
  by (simp add: debug_drawLine_def appendDrawn_def)

lemma debug_drawPoint_frame: "debug_drawPoint p color r b w = appendDrawn [Point p color r b] w"
  by (simp add: debug_drawPoint_def appendDrawn_def)

lemma drawAxis_frame:
  "drawAxis_st origin xAxis yAxis zAxis scale w
     = appendDrawn (drawAxis origin xAxis yAxis zAxis scale) w"
  by (simp add: drawAxis_st_def drawAxis_def debug_drawLine_frame Let_def)

lemma circleLoop_frame:
  "circleLoop_st nxt color prev i w = appendDrawn (circleLoop nxt color prev i) w"
proof (induction nxt color prev i w rule: circleLoop_st.induct)
  case (1 nxt color prev i w)
  show ?case
  proof (cases "i \<le> segments")
    case True
    then show ?thesis
      using "1.IH" [OF True refl refl]
      by (subst circleLoop_st.simps, subst circleLoop.simps)
         (simp add: Let_def debug_drawLine_frame)
  next
    case False
    then show ?thesis
      by (subst circleLoop_st.simps, subst circleLoop.simps) simp
  qed
qed

lemma drawWireSphere_frame:
  "drawWireSphere_st center radius color w
     = appendDrawn (drawWireSphere center radius color) w"
  by (simp add: drawWireSphere_st_def drawWireSphere_def circleLoop_frame Let_def)

lemma boneBody_frame:
  "boneBody_st sa wm live bones i w
     = appendDrawn (emitted (boneCalls (readOptions w) sa (engineInstance w) wm live bones i)) w"
  by (cases "parentIndex (bones ! i)")
     (simp_all add: boneBody_st_def boneCalls_def rootCalls_def jointCalls_def axisCalls_def
        lineCalls_def emitted_def Let_def drawAxis_frame drawWireSphere_frame
        debug_drawLine_frame debug_drawPoint_frame)

lemma boneLoop_frame:
  "boneLoop_st sa wm live bones i w
     = appendDrawn (emitted (boneLoop (readOptions w) sa (engineInstance w) wm live bones i)) w"
proof (induction sa wm live bones i w rule: boneLoop_st.induct)
  case (1 sa wm live bones i w)
  show ?case
  proof (cases "i < length bones")
    case True
    then show ?thesis
      using "1.IH" [OF True]
      by (subst boneLoop_st.simps, subst boneLoop.simps)
         (simp add: boneBody_frame emitted_append)
  next
    case False
    then show ?thesis
      by (subst boneLoop_st.simps, subst boneLoop.simps) (simp add: emitted_def)
  qed
qed

lemma drawSkeleton_frame:
  "drawSkeleton_st a e sa w
     = appendDrawn (emitted (drawSkeleton (readOptions w) (engineInstance w) a e sa)) w"
  by (simp add: drawSkeleton_st_def drawSkeleton_def originAxis_def drawAxis_frame
        boneLoop_frame emitted_append emitted_Cons emitted_def [of "[]"] Let_def
        split: option.splits)

lemma forEach_standalone_frame:
  "forEach (\<lambda>entityId assetId. drawSkeleton_st assetId entityId True) xs w
     = appendDrawn
         (emitted (concat (map (\<lambda>(a, e, s). drawSkeleton (readOptions w) (engineInstance w) a e s)
                               (map (\<lambda>(entityId, assetId). (assetId, entityId, True)) xs))))
         w"
proof (induction xs arbitrary: w)
  case Nil
  then show ?case by (simp add: emitted_def)
next
  case (Cons x xs)
  obtain k v where x: "x = (k, v)" by (cases x)
  have "forEach (\<lambda>entityId assetId. drawSkeleton_st assetId entityId True) (x # xs) w
          = forEach (\<lambda>entityId assetId. drawSkeleton_st assetId entityId True) xs
              (drawSkeleton_st v k True w)"
    by (simp only: x forEach.simps)
  then show ?case
    by (simp only: Cons.IH) (simp add: x drawSkeleton_frame emitted_append)
qed

lemma meshStep_frame:
  "meshStep_st entityId w
     = appendDrawn
         (emitted (concat (map (\<lambda>(a, e, s). drawSkeleton (readOptions w) (engineInstance w) a e s)
                               (meshInvocation (engineInstance w) entityId))))
         w"
  by (simp add: meshStep_st_def meshInvocation_def drawSkeleton_frame emitted_def [of "[]"]
        split: option.splits)

lemma forEach_mesh_frame:
  "forEach (\<lambda>entityId liveBoneIds. meshStep_st entityId) xs w
     = appendDrawn
         (emitted (concat (map (\<lambda>(a, e, s). drawSkeleton (readOptions w) (engineInstance w) a e s)
                               (concat (map (\<lambda>(entityId, _). meshInvocation (engineInstance w) entityId) xs)))))
         w"
proof (induction xs arbitrary: w)
  case Nil
  then show ?case by (simp add: emitted_def)
next
  case (Cons x xs)
  obtain k v where x: "x = (k, v)" by (cases x)
  have "forEach (\<lambda>entityId liveBoneIds. meshStep_st entityId) (x # xs) w
          = forEach (\<lambda>entityId liveBoneIds. meshStep_st entityId) xs (meshStep_st k w)"
    by (simp only: x forEach.simps)
  then show ?case
    by (simp only: Cons.IH) (simp add: x meshStep_frame emitted_append)
qed

lemma update_frame:
  "update_st w = appendDrawn (emitted (updateCalls (readOptions w) (engineInstance w))) w"
  by (simp add: update_st_def updateCalls_def invocations_def standalonePass_def
        skeletalMeshPass_def forEach_standalone_frame forEach_mesh_frame emitted_append
        emitted_def [of "[]"] Let_def)

lemma updateOutput_eq:
  "updateOutput w = emitted (updateCalls (readOptions w) (engineInstance w))"
  by (simp add: updateOutput_def update_frame)

lemma demo_readOptions: "readOptions demoWorld = DEFAULT_OPTIONS"
  by (simp add: readOptions_def demoWorld_def defaultObj_def DEFAULT_OPTIONS_def)

lemma demo_updateCalls_head:
  "\<exists>rest. updateCalls DEFAULT_OPTIONS demoEngine
            = DrawAxis (Vec3 1 2 3) (Vec3 1 0 0) (Vec3 0 1 0) (Vec3 0 0 1) (3 / 5) # rest"
  by (simp add: updateCalls_def demo_invocations demo_rig_calls)




section \<open>Properties\<close>

text \<open>
  C1. When the overlay has a live (truthy) entity identifier for bone \<open>i\<close> and the scene graph
  has a world matrix for that entity, the resolved position is that matrix's entries 12, 13
  and 14, and the whole resolved pose is the same for any bone record: the bind pose is not
  read.
\<close>

theorem live_position_is_translation:
  assumes "liveBoneAt liveBoneIds i = Some liveBoneId"
    and "getWorldMatrix eng liveBoneId = Some liveWm"
  shows "pose_pos (resolvePose eng worldMat liveBoneIds b i)
           = Vec3 (liveWm ! 12) (liveWm ! 13) (liveWm ! 14)
         \<and> resolvePose eng worldMat liveBoneIds b' i = resolvePose eng worldMat liveBoneIds b i"
  using assms by (simp add: resolvePose_def livePose_def Let_def)

theorem live_position_is_translation_witness:
  "liveBoneAt (map_of (skeletonMap demoEngine) ''rig'') 0 = Some ''b0''
   \<and> getWorldMatrix demoEngine ''b0'' = Some zeroColumnMat
   \<and> pose_pos (resolvePose demoEngine (translationMat 1 2 3)
                 (map_of (skeletonMap demoEngine) ''rig'') (demoBones ! 0) 0) = Vec3 5 6 7"
proof -
  have h1: "liveBoneAt (map_of (skeletonMap demoEngine) ''rig'') 0 = Some ''b0''"
    by (simp add: demoEngine_def liveBoneAt_def)
  have h2: "getWorldMatrix demoEngine ''b0'' = Some zeroColumnMat"
    by (simp add: demoEngine_def)
  show ?thesis
    using h1 h2 live_position_is_translation [OF h1 h2, of "translationMat 1 2 3" "demoBones ! 0"]
    by (simp add: zeroColumnMat_def)
qed

text \<open>
  C2. When bone \<open>i\<close> has no live entity, or the scene graph has no matrix for it, the resolved
  position is the bind-pose translation under the instance's world matrix as an affine map
  (linear part plus translation), and each axis is the bind-pose rotation column under the
  linear part only, with no division by a length. Under the identity world matrix the position
  is the bind-pose translation itself; under a uniform scale \<open>s\<close> every axis is \<open>s\<close> times the
  bind-pose column.
\<close>

theorem fallback_pose_from_bind_pose:
  assumes "liveBoneAt liveBoneIds i = None
           \<or> (\<exists>liveBoneId. liveBoneAt liveBoneIds i = Some liveBoneId
                \<and> getWorldMatrix eng liveBoneId = None)"
  shows "resolvePose eng w liveBoneIds b i =
           Pose (Vec3 (w ! 0 * (bindPose b ! 12) + w ! 4 * (bindPose b ! 13) + w ! 8 * (bindPose b ! 14) + w ! 12)
                      (w ! 1 * (bindPose b ! 12) + w ! 5 * (bindPose b ! 13) + w ! 9 * (bindPose b ! 14) + w ! 13)
                      (w ! 2 * (bindPose b ! 12) + w ! 6 * (bindPose b ! 13) + w ! 10 * (bindPose b ! 14) + w ! 14))
                (Vec3 (w ! 0 * (bindPose b ! 0) + w ! 4 * (bindPose b ! 1) + w ! 8 * (bindPose b ! 2))
                      (w ! 1 * (bindPose b ! 0) + w ! 5 * (bindPose b ! 1) + w ! 9 * (bindPose b ! 2))
                      (w ! 2 * (bindPose b ! 0) + w ! 6 * (bindPose b ! 1) + w ! 10 * (bindPose b ! 2)))
                (Vec3 (w ! 0 * (bindPose b ! 4) + w ! 4 * (bindPose b ! 5) + w ! 8 * (bindPose b ! 6))
                      (w ! 1 * (bindPose b ! 4) + w ! 5 * (bindPose b ! 5) + w ! 9 * (bindPose b ! 6))
                      (w ! 2 * (bindPose b ! 4) + w ! 6 * (bindPose b ! 5) + w ! 10 * (bindPose b ! 6)))
                (Vec3 (w ! 0 * (bindPose b ! 8) + w ! 4 * (bindPose b ! 9) + w ! 8 * (bindPose b ! 10))
                      (w ! 1 * (bindPose b ! 8) + w ! 5 * (bindPose b ! 9) + w ! 9 * (bindPose b ! 10))
                      (w ! 2 * (bindPose b ! 8) + w ! 6 * (bindPose b ! 9) + w ! 10 * (bindPose b ! 10)))
         \<and> pose_pos (resolvePose eng identityMat liveBoneIds b i)
             = Vec3 (bindPose b ! 12) (bindPose b ! 13) (bindPose b ! 14)
         \<and> pose_rx (resolvePose eng (scaleMat s) liveBoneIds b i)
             = Vec3 (s * (bindPose b ! 0)) (s * (bindPose b ! 1)) (s * (bindPose b ! 2))
         \<and> pose_ry (resolvePose eng (scaleMat s) liveBoneIds b i)
             = Vec3 (s * (bindPose b ! 4)) (s * (bindPose b ! 5)) (s * (bindPose b ! 6))
         \<and> pose_rz (resolvePose eng (scaleMat s) liveBoneIds b i)
             = Vec3 (s * (bindPose b ! 8)) (s * (bindPose b ! 9)) (s * (bindPose b ! 10))"
  by (simp add: resolvePose_fallback [OF assms] bindPosePose_def transform_def rotate_def
        Let_def identityMat_def translationMat_def scaleMat_def)

theorem fallback_pose_from_bind_pose_witness:
  "(liveBoneAt (map_of (skeletonMap demoEngine) ''mesh'') 1 = None
      \<or> (\<exists>liveBoneId. liveBoneAt (map_of (skeletonMap demoEngine) ''mesh'') 1 = Some liveBoneId
            \<and> getWorldMatrix demoEngine liveBoneId = None))
   \<and> pose_pos (resolvePose demoEngine identityMat (map_of (skeletonMap demoEngine) ''mesh'')
                  (demoBones ! 1) 1) = Vec3 0 1 0
   \<and> pose_rx (resolvePose demoEngine (scaleMat 2) (map_of (skeletonMap demoEngine) ''mesh'')
                  (demoBones ! 1) 1) = Vec3 2 0 0"
proof -
  have h: "liveBoneAt (map_of (skeletonMap demoEngine) ''mesh'') 1 = None
      \<or> (\<exists>liveBoneId. liveBoneAt (map_of (skeletonMap demoEngine) ''mesh'') 1 = Some liveBoneId
            \<and> getWorldMatrix demoEngine liveBoneId = None)"
    by (simp add: demoEngine_def liveBoneAt_def)
  show ?thesis
    using h fallback_pose_from_bind_pose [OF h, of identityMat "demoBones ! 1" 2]
    by (simp add: demoBones_def translationMat_def identityMat_def)
qed

text \<open>
  C3, as the code has it. On the live path the divisor of each column is never zero, and each
  axis is the column of the live matrix divided by its length when that length is not zero;
  for a column of length zero the axis is the zero vector (the column divided by 1), not the
  identity axis.
\<close>

theorem live_axes_divided_by_length:
  assumes "liveBoneAt liveBoneIds i = Some liveBoneId"
    and "getWorldMatrix eng liveBoneId = Some m"
  shows "columnLength (m ! 0) (m ! 1) (m ! 2) \<noteq> 0
         \<and> columnLength (m ! 4) (m ! 5) (m ! 6) \<noteq> 0
         \<and> columnLength (m ! 8) (m ! 9) (m ! 10) \<noteq> 0
         \<and> pose_rx (resolvePose eng w liveBoneIds b i) =
             (if sqrt ((m ! 0)\<^sup>2 + (m ! 1)\<^sup>2 + (m ! 2)\<^sup>2) = 0 then Vec3 0 0 0
              else Vec3 (m ! 0 / sqrt ((m ! 0)\<^sup>2 + (m ! 1)\<^sup>2 + (m ! 2)\<^sup>2))
                        (m ! 1 / sqrt ((m ! 0)\<^sup>2 + (m ! 1)\<^sup>2 + (m ! 2)\<^sup>2))
                        (m ! 2 / sqrt ((m ! 0)\<^sup>2 + (m ! 1)\<^sup>2 + (m ! 2)\<^sup>2)))
         \<and> pose_ry (resolvePose eng w liveBoneIds b i) =
             (if sqrt ((m ! 4)\<^sup>2 + (m ! 5)\<^sup>2 + (m ! 6)\<^sup>2) = 0 then Vec3 0 0 0
              else Vec3 (m ! 4 / sqrt ((m ! 4)\<^sup>2 + (m ! 5)\<^sup>2 + (m ! 6)\<^sup>2))
                        (m ! 5 / sqrt ((m ! 4)\<^sup>2 + (m ! 5)\<^sup>2 + (m ! 6)\<^sup>2))
                        (m ! 6 / sqrt ((m ! 4)\<^sup>2 + (m ! 5)\<^sup>2 + (m ! 6)\<^sup>2)))
         \<and> pose_rz (resolvePose eng w liveBoneIds b i) =
             (if sqrt ((m ! 8)\<^sup>2 + (m ! 9)\<^sup>2 + (m ! 10)\<^sup>2) = 0 then Vec3 0 0 0
              else Vec3 (m ! 8 / sqrt ((m ! 8)\<^sup>2 + (m ! 9)\<^sup>2 + (m ! 10)\<^sup>2))
                        (m ! 9 / sqrt ((m ! 8)\<^sup>2 + (m ! 9)\<^sup>2 + (m ! 10)\<^sup>2))
                        (m ! 10 / sqrt ((m ! 8)\<^sup>2 + (m ! 9)\<^sup>2 + (m ! 10)\<^sup>2)))"
  using assms
  by (simp add: resolvePose_def livePose_def columnLength_def Let_def sq3_zero)

theorem live_axes_divided_by_length_witness:
  "liveBoneAt (map_of (skeletonMap demoEngine) ''rig'') 0 = Some ''b0''
   \<and> getWorldMatrix demoEngine ''b0'' = Some zeroColumnMat
   \<and> pose_rx (resolvePose demoEngine (translationMat 1 2 3)
                 (map_of (skeletonMap demoEngine) ''rig'') (demoBones ! 0) 0) = Vec3 0 0 0
   \<and> pose_ry (resolvePose demoEngine (translationMat 1 2 3)
                 (map_of (skeletonMap demoEngine) ''rig'') (demoBones ! 0) 0) = Vec3 0 1 0
   \<and> pose_rz (resolvePose demoEngine (translationMat 1 2 3)
                 (map_of (skeletonMap demoEngine) ''rig'') (demoBones ! 0) 0) = Vec3 0 0 1"
proof -
  have h1: "liveBoneAt (map_of (skeletonMap demoEngine) ''rig'') 0 = Some ''b0''"
    by (simp add: demoEngine_def liveBoneAt_def)
  have h2: "getWorldMatrix demoEngine ''b0'' = Some zeroColumnMat"
    by (simp add: demoEngine_def)
  show ?thesis
    using h1 h2 live_axes_divided_by_length [OF h1 h2, of "translationMat 1 2 3" "demoBones ! 0"]
    by (simp add: zeroColumnMat_def)
qed

text \<open>
  C3 as stated fails: in the demo scene the live matrix of bone 0 has a zero X column, and
  the resolved X axis is the zero vector, not the unit X axis.
\<close>

theorem zero_column_axis_not_identity:
  "liveBoneAt (map_of (skeletonMap demoEngine) ''rig'') 0 = Some ''b0''
   \<and> getWorldMatrix demoEngine ''b0'' = Some zeroColumnMat
   \<and> sqrt ((zeroColumnMat ! 0)\<^sup>2 + (zeroColumnMat ! 1)\<^sup>2 + (zeroColumnMat ! 2)\<^sup>2) = 0
   \<and> pose_rx (resolvePose demoEngine (translationMat 1 2 3)
                 (map_of (skeletonMap demoEngine) ''rig'') (demoBones ! 0) 0) = Vec3 0 0 0
   \<and> pose_rx (resolvePose demoEngine (translationMat 1 2 3)
                 (map_of (skeletonMap demoEngine) ''rig'') (demoBones ! 0) 0) \<noteq> Vec3 1 0 0"
  by (simp add: demoEngine_def liveBoneAt_def resolvePose_def livePose_def columnLength_def
        zeroColumnMat_def)

text \<open>
  C4. With \<open>enabled\<close> false \<open>update\<close> makes no call at all, so the renderer receives nothing;
  with \<open>drawBones\<close> false it makes no bone-to-parent \<open>drawLine\<close> call; with \<open>drawJoints\<close>
  false it makes no \<open>drawPoint\<close> and no \<open>drawWireSphere\<close> call, and the renderer receives
  no point.
\<close>

theorem option_switches:
  "(\<not> enabled (options t) \<longrightarrow> snd (update t eng) = [] \<and> emitted (snd (update t eng)) = [])
   \<and> (\<not> drawBones (options t) \<longrightarrow> filter isBoneLine (snd (update t eng)) = [])
   \<and> (\<not> drawJoints (options t) \<longrightarrow>
         filter isJointMarker (snd (update t eng)) = []
         \<and> filter isPoint (emitted (snd (update t eng))) = [])"
proof (intro conjI impI)
  assume "\<not> enabled (options t)"
  then show "snd (update t eng) = []"
    by (simp add: update_def updateCalls_def invocations_def)
  then show "emitted (snd (update t eng)) = []"
    by (simp add: emitted_def)
next
  assume "\<not> drawBones (options t)"
  then show "filter isBoneLine (snd (update t eng)) = []"
    by (simp add: update_def updateCalls_def filter_concat_empty drawSkeleton_no_line
          split: prod.splits)
next
  assume "\<not> drawJoints (options t)"
  then show m: "filter isJointMarker (snd (update t eng)) = []"
    by (simp add: update_def updateCalls_def filter_concat_empty drawSkeleton_no_marker
          split: prod.splits)
  show "filter isPoint (emitted (snd (update t eng))) = []"
    by (rule emitted_no_points [OF m])
qed

theorem option_switches_witness:
  "\<not> enabled (options disabledTool)
   \<and> snd (update disabledTool demoEngine) = []
   \<and> \<not> drawBones (options noBonesTool)
   \<and> filter isBoneLine (snd (update noBonesTool demoEngine)) = []
   \<and> \<not> drawJoints (options noJointsTool)
   \<and> filter isJointMarker (snd (update noJointsTool demoEngine)) = []
   \<and> filter isPoint (emitted (snd (update noJointsTool demoEngine))) = []"
  using option_switches [of disabledTool demoEngine] option_switches [of noBonesTool demoEngine]
    option_switches [of noJointsTool demoEngine]
  by (simp add: disabledTool_def noBonesTool_def noJointsTool_def DEFAULT_OPTIONS_def)

text \<open>
  C5, as the code has it. A bone is treated as a root exactly when its parent index is \<open>-1\<close>,
  \<open>undefined\<close> or \<open>null\<close>: then it gets the root triad (when standalone or \<open>drawAxes\<close>) and
  the root wire sphere (when \<open>drawJoints\<close>) and nothing else. Any other bone gets no wire
  sphere: it gets the joint dot, the per-bone triad and, for a parent index inside the array,
  the bone line. No bone whose parent index is absent or negative gets a bone line.
\<close>

theorem root_classification:
  "(isRoot (parentIndex (bones ! i))
      \<longleftrightarrow> parentIndex (bones ! i) \<in> {PNum (- 1), PUndefined, PNull})
   \<and> (isRoot (parentIndex (bones ! i)) \<longrightarrow>
        boneCalls opts sa eng w live bones i
          = (if sa \<or> drawAxes opts
             then [DrawAxis (pose_pos (resolvePose eng w live (bones ! i) i))
                     (pose_rx (resolvePose eng w live (bones ! i) i))
                     (pose_ry (resolvePose eng w live (bones ! i) i))
                     (pose_rz (resolvePose eng w live (bones ! i) i))
                     (35 / 100 * rootScale opts)]
             else [])
            @ (if drawJoints opts
               then [DrawWireSphere (pose_pos (resolvePose eng w live (bones ! i) i))
                       (3 / 10 * rootScale opts) (rootColor opts)]
               else []))
   \<and> (\<not> isRoot (parentIndex (bones ! i)) \<longrightarrow>
        filter isWireSphere (boneCalls opts sa eng w live bones i) = []
        \<and> boneCalls opts sa eng w live bones i
          = (if drawJoints opts
             then [DrawPoint (pose_pos (resolvePose eng w live (bones ! i) i))
                     (jointColor (bones ! i)) (jointSize opts (bones ! i)) (border opts)]
             else [])
            @ (if drawAxes opts
               then [DrawAxis (pose_pos (resolvePose eng w live (bones ! i) i))
                       (pose_rx (resolvePose eng w live (bones ! i) i))
                       (pose_ry (resolvePose eng w live (bones ! i) i))
                       (pose_rz (resolvePose eng w live (bones ! i) i)) (3 / 10)]
               else [])
            @ lineCalls opts eng w live bones (bones ! i) (resolvePose eng w live (bones ! i) i))
   \<and> (absentOrNegative (parentIndex (bones ! i)) \<longrightarrow>
        filter isBoneLine (boneCalls opts sa eng w live bones i) = [])"
proof (intro conjI impI)
  show "isRoot (parentIndex (bones ! i))
      \<longleftrightarrow> parentIndex (bones ! i) \<in> {PNum (- 1), PUndefined, PNull}"
    by (simp add: isRoot_def)
next
  assume r: "isRoot (parentIndex (bones ! i))"
  then have "lineCalls opts eng w live bones (bones ! i) (resolvePose eng w live (bones ! i) i) = []"
    by (cases "parentIndex (bones ! i)") (simp_all add: lineCalls_def)
  with r show "boneCalls opts sa eng w live bones i
          = (if sa \<or> drawAxes opts
             then [DrawAxis (pose_pos (resolvePose eng w live (bones ! i) i))
                     (pose_rx (resolvePose eng w live (bones ! i) i))
                     (pose_ry (resolvePose eng w live (bones ! i) i))
                     (pose_rz (resolvePose eng w live (bones ! i) i))
                     (35 / 100 * rootScale opts)]
             else [])
            @ (if drawJoints opts
               then [DrawWireSphere (pose_pos (resolvePose eng w live (bones ! i) i))
                       (3 / 10 * rootScale opts) (rootColor opts)]
               else [])"
    by (simp add: boneCalls_def rootCalls_def axisCalls_def Let_def)
next
  assume n: "\<not> isRoot (parentIndex (bones ! i))"
  then show "filter isWireSphere (boneCalls opts sa eng w live bones i) = []"
    by (simp add: boneCalls_def jointCalls_def axisCalls_def lineCalls_def Let_def
          split: parent_ref.splits)
  from n show "boneCalls opts sa eng w live bones i
          = (if drawJoints opts
             then [DrawPoint (pose_pos (resolvePose eng w live (bones ! i) i))
                     (jointColor (bones ! i)) (jointSize opts (bones ! i)) (border opts)]
             else [])
            @ (if drawAxes opts
               then [DrawAxis (pose_pos (resolvePose eng w live (bones ! i) i))
                       (pose_rx (resolvePose eng w live (bones ! i) i))
                       (pose_ry (resolvePose eng w live (bones ! i) i))
                       (pose_rz (resolvePose eng w live (bones ! i) i)) (3 / 10)]
               else [])
            @ lineCalls opts eng w live bones (bones ! i) (resolvePose eng w live (bones ! i) i)"
    by (simp add: boneCalls_def jointCalls_def axisCalls_def Let_def)
next
  assume a: "absentOrNegative (parentIndex (bones ! i))"
  then show "filter isBoneLine (boneCalls opts sa eng w live bones i) = []"
    by (cases "parentIndex (bones ! i)")
       (simp_all add: boneCalls_def rootCalls_def jointCalls_def axisCalls_def lineCalls_def
          Let_def isRoot_def)
qed

theorem root_classification_witness:
  "isRoot (parentIndex (demoBones ! 0))
   \<and> boneCalls DEFAULT_OPTIONS True demoEngine (translationMat 1 2 3)
        (map_of (skeletonMap demoEngine) ''rig'') demoBones 0
      = [DrawAxis (Vec3 5 6 7) (Vec3 0 0 0) (Vec3 0 1 0) (Vec3 0 0 1) (14 / 25),
         DrawWireSphere (Vec3 5 6 7) (12 / 25) (RGB (1 / 5) 1 (1 / 5))]
   \<and> \<not> isRoot (parentIndex (demoBones ! 3))
   \<and> absentOrNegative (parentIndex (demoBones ! 3))
   \<and> filter isWireSphere (boneCalls DEFAULT_OPTIONS True demoEngine (translationMat 1 2 3)
        (map_of (skeletonMap demoEngine) ''rig'') demoBones 3) = []
   \<and> filter isBoneLine (boneCalls DEFAULT_OPTIONS True demoEngine (translationMat 1 2 3)
        (map_of (skeletonMap demoEngine) ''rig'') demoBones 3) = []"
proof -
  have r0: "isRoot (parentIndex (demoBones ! 0))"
    by (simp add: demoBones_def isRoot_def)
  have r3: "\<not> isRoot (parentIndex (demoBones ! 3))"
    by (simp add: demoBones_def isRoot_def)
  have a3: "absentOrNegative (parentIndex (demoBones ! 3))"
    by (simp add: demoBones_def)
  have p0: "resolvePose demoEngine (translationMat 1 2 3)
              (map_of (skeletonMap demoEngine) ''rig'') (demoBones ! 0) 0
            = Pose (Vec3 5 6 7) (Vec3 0 0 0) (Vec3 0 1 0) (Vec3 0 0 1)"
    by (simp add: resolvePose_def liveBoneAt_def demoEngine_def livePose_def
          zeroColumnMat_def columnLength_def)
  note c0 = root_classification [of demoBones 0 DEFAULT_OPTIONS True demoEngine "translationMat 1 2 3"
                  "map_of (skeletonMap demoEngine) ''rig''"]
  note c3 = root_classification [of demoBones 3 DEFAULT_OPTIONS True demoEngine "translationMat 1 2 3"
                  "map_of (skeletonMap demoEngine) ''rig''"]
  have e0: "boneCalls DEFAULT_OPTIONS True demoEngine (translationMat 1 2 3)
        (map_of (skeletonMap demoEngine) ''rig'') demoBones 0
      = [DrawAxis (Vec3 5 6 7) (Vec3 0 0 0) (Vec3 0 1 0) (Vec3 0 0 1) (14 / 25),
         DrawWireSphere (Vec3 5 6 7) (12 / 25) (RGB (1 / 5) 1 (1 / 5))]"
    using c0 r0 by (simp add: p0 DEFAULT_OPTIONS_def)
  have e3: "filter isWireSphere (boneCalls DEFAULT_OPTIONS True demoEngine (translationMat 1 2 3)
        (map_of (skeletonMap demoEngine) ''rig'') demoBones 3) = []"
    using c3 r3 by blast
  have f3: "filter isBoneLine (boneCalls DEFAULT_OPTIONS True demoEngine (translationMat 1 2 3)
        (map_of (skeletonMap demoEngine) ''rig'') demoBones 3) = []"
    using c3 a3 by blast
  show ?thesis using r0 r3 a3 e0 e3 f3 by blast
qed

text \<open>
  C5 as stated fails: bone 3 of the demo skeleton has the negative parent index \<open>-2\<close>, is not
  treated as a root, and in a standalone instance with joints drawn gets the joint dot and
  neither root triad nor wire sphere.
\<close>

theorem negative_parent_not_root:
  "absentOrNegative (parentIndex (demoBones ! 3))
   \<and> \<not> isRoot (parentIndex (demoBones ! 3))
   \<and> boneCalls DEFAULT_OPTIONS True demoEngine (translationMat 1 2 3)
        (map_of (skeletonMap demoEngine) ''rig'') demoBones 3
      = [DrawPoint (Vec3 1 5 3) (RGB 1 (1 / 2) 0) 10 (2 / 10)]"
  by (simp add: demoBones_def isRoot_def boneCalls_def jointCalls_def axisCalls_def
        lineCalls_def resolvePose_def liveBoneAt_def demoEngine_def bindPosePose_def
        transform_def rotate_def translationMat_def jointColor_def jointSize_def
        DEFAULT_OPTIONS_def Let_def)

text \<open>
  C6. In a \<open>drawSkeleton\<close> call that reaches the bone loop, a bone whose numeric parent index
  is negative or at least the bone count gets no bone-to-parent line; the call returns, having
  run the loop body once for each index below the bone count, in order, and having made at
  most one call for the origin triad and three per bone.
\<close>

theorem invalid_parent_skipped:
  assumes "getAsset eng assetId = Some (Some bones)"
    and "getWorldMatrix eng entityId = Some w"
    and "i < length bones"
    and "parentIndex (bones ! i) = PNum p"
    and "p < 0 \<or> int (length bones) \<le> p"
  shows "drawSkeleton opts eng assetId entityId sa
           = (if sa then [originAxis w] else [])
             @ concat (map (boneCalls opts sa eng w (map_of (skeletonMap eng) entityId) bones)
                           [0..<length bones])
         \<and> filter isBoneLine
              (boneCalls opts sa eng w (map_of (skeletonMap eng) entityId) bones i) = []
         \<and> length (drawSkeleton opts eng assetId entityId sa) \<le> 1 + 3 * length bones"
proof (intro conjI)
  show u: "drawSkeleton opts eng assetId entityId sa
           = (if sa then [originAxis w] else [])
             @ concat (map (boneCalls opts sa eng w (map_of (skeletonMap eng) entityId) bones)
                           [0..<length bones])"
    by (rule drawSkeleton_unfold [OF assms(1,2)])
  show "filter isBoneLine
          (boneCalls opts sa eng w (map_of (skeletonMap eng) entityId) bones i) = []"
    using assms(4,5)
    by (auto simp: boneCalls_def rootCalls_def jointCalls_def axisCalls_def lineCalls_def Let_def)
  have "length (concat (map (boneCalls opts sa eng w (map_of (skeletonMap eng) entityId) bones)
                           [0..<length bones])) \<le> 3 * length [0..<length bones]"
    by (rule length_concat_bound) (rule boneCalls_length)
  then show "length (drawSkeleton opts eng assetId entityId sa) \<le> 1 + 3 * length bones"
    by (cases sa) (auto simp: drawSkeleton_unfold [OF assms(1,2)])
qed

theorem invalid_parent_skipped_witness:
  "getAsset demoEngine ''skel'' = Some (Some demoBones)
   \<and> getWorldMatrix demoEngine ''rig'' = Some (translationMat 1 2 3)
   \<and> 2 < length demoBones
   \<and> parentIndex (demoBones ! 2) = PNum 9
   \<and> ((9::int) < 0 \<or> int (length demoBones) \<le> 9)
   \<and> filter isBoneLine
        (boneCalls DEFAULT_OPTIONS True demoEngine (translationMat 1 2 3)
           (map_of (skeletonMap demoEngine) ''rig'') demoBones 2) = []
   \<and> length (drawSkeleton DEFAULT_OPTIONS demoEngine ''skel'' ''rig'' True) \<le> 13"
proof -
  have h1: "getAsset demoEngine ''skel'' = Some (Some demoBones)"
    by (simp add: demoEngine_def)
  have h2: "getWorldMatrix demoEngine ''rig'' = Some (translationMat 1 2 3)"
    by (simp add: demoEngine_def)
  have h3: "2 < length demoBones" by (simp add: demoBones_def)
  have h4: "parentIndex (demoBones ! 2) = PNum 9" by (simp add: demoBones_def)
  have h5: "(9::int) < 0 \<or> int (length demoBones) \<le> 9" by (simp add: demoBones_def)
  have l: "length demoBones = 4" by (simp add: demoBones_def)
  note c = invalid_parent_skipped [OF h1 h2 h3 h4 h5, of DEFAULT_OPTIONS True]
  from c have c1: "filter isBoneLine
        (boneCalls DEFAULT_OPTIONS True demoEngine (translationMat 1 2 3)
           (map_of (skeletonMap demoEngine) ''rig'') demoBones 2) = []"
    by blast
  from c have "length (drawSkeleton DEFAULT_OPTIONS demoEngine ''skel'' ''rig'' True)
                 \<le> 1 + 3 * length demoBones"
    by blast
  then have c2: "length (drawSkeleton DEFAULT_OPTIONS demoEngine ''skel'' ''rig'' True) \<le> 13"
    by (simp only: l)
  show ?thesis
    using h1 h2 h3 h4 h5 c1 c2 by blast
qed



text \<open>
  C8. In an \<open>update\<close> that draws, a standalone instance whose asset has a skeleton and whose
  entity has a world matrix \<open>w\<close> gets a \<open>drawAxis\<close> call at the translation of \<open>w\<close> along
  the columns of \<open>w\<close> with scale 0.6, which the renderer receives as a red, a green and a
  blue line from that origin; \<open>drawAxes\<close> is not consulted.
\<close>

theorem standalone_origin_triad:
  assumes "enabled (options t)" and "debugRenderer eng"
    and "(entityId, assetId) \<in> set (skeletonEntityAssetMap eng)"
    and "getAsset eng assetId = Some (Some bones)"
    and "getWorldMatrix eng entityId = Some w"
  shows "\<exists>before after.
           snd (update t eng)
             = before
               @ DrawAxis (Vec3 (w ! 12) (w ! 13) (w ! 14))
                   (Vec3 (w ! 0) (w ! 1) (w ! 2)) (Vec3 (w ! 4) (w ! 5) (w ! 6))
                   (Vec3 (w ! 8) (w ! 9) (w ! 10)) (6 / 10)
               # after
           \<and> emitted (snd (update t eng))
             = emitted before
               @ [ Line (Vec3 (w ! 12) (w ! 13) (w ! 14))
                     (Vec3 (w ! 12 + w ! 0 * (6 / 10)) (w ! 13 + w ! 1 * (6 / 10))
                           (w ! 14 + w ! 2 * (6 / 10)))
                     (RGB 1 0 0),
                   Line (Vec3 (w ! 12) (w ! 13) (w ! 14))
                     (Vec3 (w ! 12 + w ! 4 * (6 / 10)) (w ! 13 + w ! 5 * (6 / 10))
                           (w ! 14 + w ! 6 * (6 / 10)))
                     (RGB 0 1 0),
                   Line (Vec3 (w ! 12) (w ! 13) (w ! 14))
                     (Vec3 (w ! 12 + w ! 8 * (6 / 10)) (w ! 13 + w ! 9 * (6 / 10))
                           (w ! 14 + w ! 10 * (6 / 10)))
                     (RGB 0 0 1) ]
               @ emitted after"
proof -
  from assms(3) obtain xs ys
    where "skeletonEntityAssetMap eng = xs @ (entityId, assetId) # ys"
    by (meson split_list)
  from updateCalls_split [OF assms(1,2) this]
  obtain before rest
    where u: "updateCalls (options t) eng
                = before @ drawSkeleton (options t) eng assetId entityId True @ rest"
    by blast
  have d: "drawSkeleton (options t) eng assetId entityId True
             = originAxis w
               # concat (map (boneCalls (options t) True eng w
                                (map_of (skeletonMap eng) entityId) bones)
                             [0..<length bones])"
    by (simp add: drawSkeleton_unfold [OF assms(4,5)])
  define after where
    "after = concat (map (boneCalls (options t) True eng w
                           (map_of (skeletonMap eng) entityId) bones)
                        [0..<length bones]) @ rest"
  have c: "snd (update t eng) = before @ originAxis w # after"
    by (simp add: update_def u d after_def)
  have "emitted (snd (update t eng)) = emitted before @ render (originAxis w) @ emitted after"
    by (simp add: c emitted_append emitted_Cons)
  then have "snd (update t eng)
             = before
               @ DrawAxis (Vec3 (w ! 12) (w ! 13) (w ! 14))
                   (Vec3 (w ! 0) (w ! 1) (w ! 2)) (Vec3 (w ! 4) (w ! 5) (w ! 6))
                   (Vec3 (w ! 8) (w ! 9) (w ! 10)) (6 / 10)
               # after
           \<and> emitted (snd (update t eng))
             = emitted before
               @ [ Line (Vec3 (w ! 12) (w ! 13) (w ! 14))
                     (Vec3 (w ! 12 + w ! 0 * (6 / 10)) (w ! 13 + w ! 1 * (6 / 10))
                           (w ! 14 + w ! 2 * (6 / 10)))
                     (RGB 1 0 0),
                   Line (Vec3 (w ! 12) (w ! 13) (w ! 14))
                     (Vec3 (w ! 12 + w ! 4 * (6 / 10)) (w ! 13 + w ! 5 * (6 / 10))
                           (w ! 14 + w ! 6 * (6 / 10)))
                     (RGB 0 1 0),
                   Line (Vec3 (w ! 12) (w ! 13) (w ! 14))
                     (Vec3 (w ! 12 + w ! 8 * (6 / 10)) (w ! 13 + w ! 9 * (6 / 10))
                           (w ! 14 + w ! 10 * (6 / 10)))
                     (RGB 0 0 1) ]
               @ emitted after"
    using c by (simp add: originAxis_def drawAxis_def)
  then show ?thesis by blast
qed

theorem standalone_origin_triad_witness:
  "enabled (options axesOffTool) \<and> \<not> drawAxes (options axesOffTool)
   \<and> debugRenderer demoEngine
   \<and> (''rig'', ''skel'') \<in> set (skeletonEntityAssetMap demoEngine)
   \<and> getAsset demoEngine ''skel'' = Some (Some demoBones)
   \<and> getWorldMatrix demoEngine ''rig'' = Some (translationMat 1 2 3)
   \<and> (\<exists>before after.
         emitted (snd (update axesOffTool demoEngine))
           = emitted before
             @ [ Line (Vec3 1 2 3) (Vec3 (16 / 10) 2 3) (RGB 1 0 0),
                 Line (Vec3 1 2 3) (Vec3 1 (26 / 10) 3) (RGB 0 1 0),
                 Line (Vec3 1 2 3) (Vec3 1 2 (36 / 10)) (RGB 0 0 1) ]
             @ emitted after)"
proof -
  have h1: "enabled (options axesOffTool)"
    by (simp add: axesOffTool_def DEFAULT_OPTIONS_def)
  have h0: "\<not> drawAxes (options axesOffTool)"
    by (simp add: axesOffTool_def)
  have h2: "debugRenderer demoEngine" by (simp add: demoEngine_def)
  have h3: "(''rig'', ''skel'') \<in> set (skeletonEntityAssetMap demoEngine)"
    by (simp add: demoEngine_def)
  have h4: "getAsset demoEngine ''skel'' = Some (Some demoBones)"
    by (simp add: demoEngine_def)
  have h5: "getWorldMatrix demoEngine ''rig'' = Some (translationMat 1 2 3)"
    by (simp add: demoEngine_def)
  from standalone_origin_triad [OF h1 h2 h3 h4 h5]
  have "\<exists>before after.
         emitted (snd (update axesOffTool demoEngine))
           = emitted before
             @ [ Line (Vec3 1 2 3) (Vec3 (16 / 10) 2 3) (RGB 1 0 0),
                 Line (Vec3 1 2 3) (Vec3 1 (26 / 10) 3) (RGB 0 1 0),
                 Line (Vec3 1 2 3) (Vec3 1 2 (36 / 10)) (RGB 0 0 1) ]
             @ emitted after"
    by (simp add: translationMat_def) blast
  then show ?thesis using h0 h1 h2 h3 h4 h5 by blast
qed

text \<open>
  C9. On the program state, \<open>update\<close> changes nothing but the renderer's buffer, to which it
  appends its output: the tool's reference, every options and colour object and the
  collaborators are as before. So a second \<open>update\<close> hands the renderer the same sequence as
  the first, and two states whose options have the same value and whose collaborators are the
  same give the same output, whatever else differs between them. That output is the one the
  functional description of \<open>update\<close> computes.
\<close>

theorem update_output_determined:
  "update_st w = w\<lparr> drawn := drawn w @ updateOutput w \<rparr>
   \<and> updateOutput (update_st w) = updateOutput w
   \<and> (readOptions w' = readOptions w \<and> engineInstance w' = engineInstance w
        \<longrightarrow> updateOutput w' = updateOutput w)
   \<and> updateOutput w = emitted (updateCalls (readOptions w) (engineInstance w))"
proof (intro conjI impI)
  show "update_st w = w\<lparr> drawn := drawn w @ updateOutput w \<rparr>"
    by (simp add: updateOutput_eq update_frame appendDrawn_def)
  show "updateOutput (update_st w) = updateOutput w"
    by (simp add: updateOutput_eq update_frame)
  show "updateOutput w = emitted (updateCalls (readOptions w) (engineInstance w))"
    by (rule updateOutput_eq)
next
  assume "readOptions w' = readOptions w \<and> engineInstance w' = engineInstance w"
  then show "updateOutput w' = updateOutput w"
    by (simp add: updateOutput_eq)
qed

theorem update_output_determined_witness:
  "readOptions otherWorld = readOptions demoWorld
   \<and> engineInstance otherWorld = engineInstance demoWorld
   \<and> this_options otherWorld \<noteq> this_options demoWorld
   \<and> drawn otherWorld \<noteq> drawn demoWorld
   \<and> updateOutput otherWorld = updateOutput demoWorld
   \<and> updateOutput (update_st demoWorld) = updateOutput demoWorld
   \<and> updateOutput demoWorld \<noteq> []"
proof -
  have h: "readOptions otherWorld = readOptions demoWorld
           \<and> engineInstance otherWorld = engineInstance demoWorld"
    by (simp add: readOptions_def otherWorld_def demoWorld_def defaultObj_def)
  have d: "this_options otherWorld \<noteq> this_options demoWorld"
    "drawn otherWorld \<noteq> drawn demoWorld"
    by (simp_all add: otherWorld_def demoWorld_def)
  note c = update_output_determined [of demoWorld otherWorld]
  from c h have o: "updateOutput otherWorld = updateOutput demoWorld" by blast
  from c have t: "updateOutput (update_st demoWorld) = updateOutput demoWorld" by blast
  from c have "updateOutput demoWorld
                 = emitted (updateCalls (readOptions demoWorld) (engineInstance demoWorld))"
    by blast
  moreover have "engineInstance demoWorld = demoEngine" by (simp add: demoWorld_def)
  ultimately have "updateOutput demoWorld = emitted (updateCalls DEFAULT_OPTIONS demoEngine)"
    by (simp add: demo_readOptions)
  with demo_updateCalls_head have n: "updateOutput demoWorld \<noteq> []"
    by (auto simp: emitted_Cons drawAxis_def)
  show ?thesis using h d o t n by blast
qed

text \<open>
  C10. When the scene graph has no world matrix for the instance's own entity,
  \<open>drawSkeleton\<close> makes no call, whatever the overlay holds for its bones.
\<close>

theorem no_world_matrix_skips_instance:
  assumes "getWorldMatrix eng entityId = None"
  shows "drawSkeleton opts eng assetId entityId isStandalone = []
         \<and> emitted (drawSkeleton opts eng assetId entityId isStandalone) = []"
  using assms by (simp add: drawSkeleton_def emitted_def split: option.splits)

theorem no_world_matrix_skips_instance_witness:
  "getWorldMatrix demoEngine ''ghost'' = None
   \<and> liveBoneAt (map_of (skeletonMap demoEngine) ''ghost'') 0 = Some ''b0''
   \<and> getWorldMatrix demoEngine ''b0'' = Some zeroColumnMat
   \<and> drawSkeleton DEFAULT_OPTIONS demoEngine ''skel'' ''ghost'' False = []"
proof -
  have h: "getWorldMatrix demoEngine ''ghost'' = None"
    by (simp add: demoEngine_def)
  have l: "liveBoneAt (map_of (skeletonMap demoEngine) ''ghost'') 0 = Some ''b0''"
    "getWorldMatrix demoEngine ''b0'' = Some zeroColumnMat"
    by (simp_all add: demoEngine_def liveBoneAt_def)
  show ?thesis
    using h l no_world_matrix_skips_instance [OF h, of DEFAULT_OPTIONS "''skel''" False] by simp
qed

end
